theory Spec2Isabelle
  imports Complex_Main "HOL-Library.Multiset"
begin

section \<open>Python values used by the student-support agents\<close>

text \<open>
  Strings are lists of characters. The functions below follow Python's \<open>str\<close> methods on
  ASCII text: \<open>lower\<close> maps the letters A-Z, and the white space of \<open>strip\<close> and
  \<open>split\<close> is the ASCII white space of \<open>str.isspace\<close> (tab, line feed, vertical tab,
  form feed, carriage return, the separators 0x1C-0x1F and the blank). Python's own tables
  are larger: \<open>str.lower\<close> also maps letters outside ASCII, \<open>str.isspace\<close> also holds
  for white space outside ASCII (U+0085, U+00A0, U+2003 and others), and \<open>\w\<close> also
  matches letters and digits outside ASCII. Here a character outside ASCII is left alone
  by \<open>lower\<close>, is never white space and is never a word character, so on text with such
  characters the functions below can differ from Python's.
\<close>

definition lower_char :: "char \<Rightarrow> char" where
  "lower_char c =
     (case map_of (zip ''ABCDEFGHIJKLMNOPQRSTUVWXYZ'' ''abcdefghijklmnopqrstuvwxyz'') c of
        Some l \<Rightarrow> l
      | None \<Rightarrow> c)"

definition lower :: "string \<Rightarrow> string" where
  "lower s = map lower_char s"

definition isspace :: "char \<Rightarrow> bool" where
  "isspace c = (c \<in> set [CHR 0x09, CHR 0x0A, CHR 0x0B, CHR 0x0C, CHR 0x0D,
                          CHR 0x1C, CHR 0x1D, CHR 0x1E, CHR 0x1F, CHR 0x20])"

definition strip :: "string \<Rightarrow> string" where
  "strip s = rev (dropWhile isspace (rev (dropWhile isspace s)))"

text \<open>\<open>str.split()\<close> with no argument: the maximal runs of non-blank characters.\<close>

fun split_acc :: "string \<Rightarrow> string \<Rightarrow> string list" where
  "split_acc cur [] = (if cur = [] then [] else [cur])"
| "split_acc cur (c # cs) =
     (if isspace c then (if cur = [] then split_acc [] cs else cur # split_acc [] cs)
      else split_acc (cur @ [c]) cs)"

definition split_ws :: "string \<Rightarrow> string list" where
  "split_ws s = split_acc [] s"

fun startswith :: "string \<Rightarrow> string \<Rightarrow> bool" where
  "startswith s [] = True"
| "startswith [] (p # ps) = False"
| "startswith (c # cs) (p # ps) = (c = p \<and> startswith cs ps)"


text \<open>\<open>sub in s\<close> on strings.\<close>

fun py_in :: "string \<Rightarrow> string \<Rightarrow> bool" where
  "py_in sub [] = (sub = [])"
| "py_in sub (c # cs) = (startswith (c # cs) sub \<or> py_in sub cs)"


text \<open>\<open>sep.join(parts)\<close>.\<close>

fun join :: "string \<Rightarrow> string list \<Rightarrow> string" where
  "join sep [] = []"
| "join sep [x] = x"
| "join sep (x # y # ys) = x @ sep @ join sep (y # ys)"

text \<open>\<open>str(n)\<close> of an integer: its decimal digits, with a minus sign when negative.\<close>

definition digit_char :: "nat \<Rightarrow> char" where
  "digit_char d = ''0123456789'' ! d"

function str_nat :: "nat \<Rightarrow> string" where
  "str_nat n = (if n < 10 then [digit_char n] else str_nat (n div 10) @ [digit_char (n mod 10)])"
  by pat_completeness auto
termination
  by (relation "measure id") auto

declare str_nat.simps [simp del]

definition str_int :: "int \<Rightarrow> string" where
  "str_int i = (if i < 0 then CHR ''-'' # str_nat (nat (- i)) else str_nat (nat i))"

text \<open>\<open>int(x)\<close> of a float: truncation towards zero. A float is taken by its exact value.\<close>

definition py_int :: "rat \<Rightarrow> int" where
  "py_int x = (if 0 \<le> x then \<lfloor>x\<rfloor> else \<lceil>x\<rceil>)"

text \<open>
  An exception that derives from \<open>Exception\<close>, by the name of its class and the text that
  \<open>str(e)\<close> gives. A function that can raise returns \<open>exn + 'a\<close>, the exception on the left.
\<close>

datatype exn = Exn (exn_class: string) (exn_str: string)

text \<open>
  \<open>KeyError("unknown session")\<close>: \<open>str\<close> of a \<open>KeyError\<close> is the \<open>repr\<close> of its argument,
  so the text carries the quotes.
\<close>

definition unknown_session :: exn where
  "unknown_session = Exn ''KeyError'' ([CHR 0x27] @ ''unknown session'' @ [CHR 0x27])"

text \<open>Subscripting \<open>None\<close>, as in \<open>None["username"]\<close>.\<close>

definition none_not_subscriptable :: exn where
  "none_not_subscriptable =
     Exn ''TypeError'' ([CHR 0x27] @ ''NoneType'' @ [CHR 0x27] @ '' object is not subscriptable'')"

text \<open>Calling \<open>.lower()\<close> on \<open>None\<close>.\<close>

definition none_has_no_lower :: exn where
  "none_has_no_lower =
     Exn ''AttributeError''
       ([CHR 0x27] @ ''NoneType'' @ [CHR 0x27] @ '' object has no attribute ''
        @ [CHR 0x27] @ ''lower'' @ [CHR 0x27])"


section \<open>memory.py: the session store\<close>

text \<open>
  One history entry \<open>{"ts": ..., "role": ..., "text": ...}\<close>, one session record and the
  store's \<open>_data\<close>. Values of type \<open>Any\<close> are of a type \<open>'v\<close>. The clock is read by the
  caller and passed in; writing the JSON file (\<open>_flush\<close>) is outside the model.
\<close>

record entry =
  ts :: string
  role :: string
  body :: string

record 'v session =
  username :: string
  history :: "entry list"
  state :: "string \<rightharpoonup> 'v"
  created :: string

record 'v memory_store =
  sessions :: "string \<rightharpoonup> 'v session"
  long_term :: "string \<rightharpoonup> 'v"
  globals :: "string \<rightharpoonup> 'v"

text \<open>\<open>MemoryStore()\<close> when no memory file exists.\<close>

definition init_store :: "'v memory_store" where
  "init_store = \<lparr>sessions = Map.empty, long_term = Map.empty, globals = Map.empty\<rparr>"

text \<open>
  \<open>create_session\<close>: \<open>now\<close> is the value of \<open>datetime.utcnow().timestamp()\<close> and \<open>stamp\<close>
  the text of the second clock reading. The result is the id and the store afterwards.
\<close>

definition session_id :: "string \<Rightarrow> rat \<Rightarrow> string" where
  "session_id uname now = ''sess_'' @ uname @ ''_'' @ str_int (py_int now)"

definition create_session ::
  "'v memory_store \<Rightarrow> string \<Rightarrow> rat \<Rightarrow> string \<Rightarrow> string \<times> 'v memory_store" where
  "create_session st uname now stamp =
     (let sid = session_id uname now
      in (sid, st\<lparr>sessions := (sessions st)(sid \<mapsto>
            \<lparr>username = uname, history = [], state = Map.empty, created = stamp\<rparr>)\<rparr>))"

text \<open>The slice \<open>xs[-10:]\<close>.\<close>

definition last10 :: "'a list \<Rightarrow> 'a list" where
  "last10 xs = drop (length xs - 10) xs"

definition append_history ::
  "'v memory_store \<Rightarrow> string \<Rightarrow> string \<Rightarrow> string \<Rightarrow> string \<Rightarrow> exn + 'v memory_store" where
  "append_history st sid r t stamp =
     (case sessions st sid of
        None \<Rightarrow> Inl unknown_session
      | Some s \<Rightarrow>
          Inr (st\<lparr>sessions := (sessions st)(sid \<mapsto>
                 s\<lparr>history := last10 (history s @ [\<lparr>ts = stamp, role = r, body = t\<rparr>])\<rparr>)\<rparr>))"

definition get_session :: "'v memory_store \<Rightarrow> string \<Rightarrow> 'v session option" where
  "get_session st sid = sessions st sid"

text \<open>
  \<open>set_session_field\<close> tests \<open>not s\<close>; a session record is a dictionary with four keys and
  never empty, so the test is true exactly for \<open>None\<close>.
\<close>

definition set_session_field ::
  "'v memory_store \<Rightarrow> string \<Rightarrow> string \<Rightarrow> 'v \<Rightarrow> exn + 'v memory_store" where
  "set_session_field st sid k v =
     (case sessions st sid of
        None \<Rightarrow> Inl unknown_session
      | Some s \<Rightarrow> Inr (st\<lparr>sessions := (sessions st)(sid \<mapsto> s\<lparr>state := (state s)(k \<mapsto> v)\<rparr>)\<rparr>))"

text \<open>
  Successive \<open>append_history\<close> calls on one session, each with its role, text and clock
  reading; the first call that raises ends the sequence.
\<close>

fun append_all ::
  "'v memory_store \<Rightarrow> string \<Rightarrow> (string \<times> string \<times> string) list \<Rightarrow> exn + 'v memory_store" where
  "append_all st sid [] = Inr st"
| "append_all st sid ((r, t, stamp) # es) =
     (case append_history st sid r t stamp of
        Inl e \<Rightarrow> Inl e
      | Inr st' \<Rightarrow> append_all st' sid es)"

definition mk_entry :: "string \<times> string \<times> string \<Rightarrow> entry" where
  "mk_entry e = (case e of (r, t, stamp) \<Rightarrow> \<lparr>ts = stamp, role = r, body = t\<rparr>)"

text \<open>The history stored for a session id (empty when the id is unknown).\<close>

definition history_of :: "'v memory_store \<Rightarrow> string \<Rightarrow> entry list" where
  "history_of st sid = (case sessions st sid of None \<Rightarrow> [] | Some s \<Rightarrow> history s)"


section \<open>agents.py: the composite agents\<close>

text \<open>
  An agent is its \<open>handle(sid, message)\<close>: it returns a text or raises.
\<close>

type_synonym agent = "string \<Rightarrow> string \<Rightarrow> exn + string"

text \<open>\<open>SequentialAgent.handle\<close>: the loop \<open>state = a.handle(sid, state)\<close>; an exception of a
  member ends the loop and reaches the caller.\<close>

fun SequentialAgent_handle :: "agent list \<Rightarrow> string \<Rightarrow> string \<Rightarrow> exn + string" where
  "SequentialAgent_handle [] sid st = Inr st"
| "SequentialAgent_handle (a # as) sid st =
     (case a sid st of
        Inl e \<Rightarrow> Inl e
      | Inr st' \<Rightarrow> SequentialAgent_handle as sid st')"


text \<open>
  \<open>ParallelAgent.handle\<close>. Each member runs in a thread of its own: the thread calls the
  member, turns an exception into the text \<open>Agent error: ...\<close>, takes the lock and appends
  its text to \<open>results\<close>. All threads are started and joined before the list is read, so
  every thread appends once; \<open>order\<close> lists the threads, by their index in \<open>agents\<close>, in
  the order in which they take the lock.
\<close>

definition run_agent :: "agent \<Rightarrow> string \<Rightarrow> string \<Rightarrow> string" where
  "run_agent a sid message =
     (case a sid message of
        Inr r \<Rightarrow> r
      | Inl e \<Rightarrow> ''Agent error: '' @ exn_str e)"

fun run_threads :: "agent list \<Rightarrow> nat list \<Rightarrow> string \<Rightarrow> string \<Rightarrow> string list \<Rightarrow> string list" where
  "run_threads agents [] sid message results = results"
| "run_threads agents (i # order) sid message results =
     run_threads agents order sid message (results @ [run_agent (agents ! i) sid message])"

definition separator :: string where
  "separator = [CHR 0x0A] @ ''---'' @ [CHR 0x0A]"

definition ParallelAgent_handle ::
  "agent list \<Rightarrow> nat list \<Rightarrow> string \<Rightarrow> string \<Rightarrow> exn + string" where
  "ParallelAgent_handle agents order sid message =
     Inr (join separator (run_threads agents order sid message []))"

text \<open>An order in which the threads of \<open>agents\<close> can finish: every index once.\<close>

definition completion_order :: "agent list \<Rightarrow> nat list \<Rightarrow> bool" where
  "completion_order agents order = (mset order = mset [0..<length agents])"


section \<open>tools.py: the tool set\<close>

text \<open>
  The student table, as \<open>load_student_db\<close> reads it with \<open>csv.DictReader\<close>: for each
  username the row of the file, a dictionary from column names to values. A row that is
  shorter than the header has the value \<open>None\<close> in the columns it lacks, so a value is a
  \<open>string option\<close>.
\<close>

type_synonym student_db = "string \<rightharpoonup> (string \<rightharpoonup> string option)"

definition csv_lookup :: "student_db \<Rightarrow> string \<Rightarrow> (string \<rightharpoonup> string option)" where
  "csv_lookup db uname =
     (if uname = [] then Map.empty
      else (case db uname of None \<Rightarrow> Map.empty | Some row \<Rightarrow> row))"

text \<open>The table that \<open>load_student_db\<close> writes when there is no CSV file.\<close>

definition default_student_db :: student_db where
  "default_student_db =
     [''alice'' \<mapsto> [''username'' \<mapsto> Some ''alice'', ''email'' \<mapsto> Some ''alice@example.com'',
                   ''orientation_done'' \<mapsto> Some ''yes'', ''access_codes'' \<mapsto> Some ''AC-111''],
      ''bob'' \<mapsto> [''username'' \<mapsto> Some ''bob'', ''email'' \<mapsto> Some ''bob@example.com'',
                 ''orientation_done'' \<mapsto> Some ''no'', ''access_codes'' \<mapsto> Some ''AC-222'']]"

text \<open>
  A table whose file has the short row \<open>carol,carol@example.com\<close> under the header
  \<open>username,email,orientation_done,access_codes\<close>.
\<close>

definition short_row_student_db :: student_db where
  "short_row_student_db =
     [''carol'' \<mapsto> [''username'' \<mapsto> Some ''carol'', ''email'' \<mapsto> Some ''carol@example.com'',
                   ''orientation_done'' \<mapsto> None, ''access_codes'' \<mapsto> None]]"

text \<open>
  \<open>_normalize\<close>: lower case, every character that is neither a word character (\<open>\w\<close>)
  nor white space becomes a blank, every run of white space becomes one blank, and the
  ends are stripped.
\<close>

definition isword :: "char \<Rightarrow> bool" where
  "isword c = (c \<in> set ''abcdefghijklmnopqrstuvwxyzABCDEFGHIJKLMNOPQRSTUVWXYZ0123456789_'')"

fun collapse_ws :: "bool \<Rightarrow> string \<Rightarrow> string" where
  "collapse_ws in_run [] = []"
| "collapse_ws in_run (c # cs) =
     (if isspace c then (if in_run then collapse_ws True cs else CHR '' '' # collapse_ws True cs)
      else c # collapse_ws False cs)"

definition tools_normalize :: "string \<Rightarrow> string" where
  "tools_normalize t =
     strip (collapse_ws False
       (map (\<lambda>c. if isword c \<or> isspace c then c else CHR '' '') (lower t)))"

definition faqs :: "(string \<times> string) list" where
  "faqs =
     [(''how to take exam'', ''Open LockDown Browser, go to module, click Start Exam.''),
      (''ms365'', ''Sign in at portal.office.com using your college email.''),
      (''how to login'',
       ''Use your college username and password; reset via the portal if needed.'')]"

text \<open>
  The scoring loop of \<open>google_search\<close>. \<open>Inl v\<close> is the \<open>return v\<close> inside the loop (a key
  all of whose tokens are in the query); \<open>Inr\<close> carries \<open>best_score\<close> and \<open>best_answer\<close> out
  of the loop. The source first updates \<open>best_score\<close> and \<open>best_answer\<close> and then
  tests \<open>score == 1.0\<close>; as the \<open>return\<close> drops both, the test stands first here. The
  scores are quotients of two small token counts.
\<close>

fun faq_scan ::
  "string list \<Rightarrow> (string \<times> string) list \<Rightarrow> rat \<Rightarrow> string option \<Rightarrow> string + (rat \<times> string option)" where
  "faq_scan qtokens [] best_score best_answer = Inr (best_score, best_answer)"
| "faq_scan qtokens ((k, v) # rest) best_score best_answer =
     (if split_ws (tools_normalize k) = [] then faq_scan qtokens rest best_score best_answer
      else if rat_of_nat (card (set qtokens \<inter> set (split_ws (tools_normalize k))))
                / rat_of_nat (max (card (set (split_ws (tools_normalize k)))) 1) = 1
      then Inl v
      else if rat_of_nat (card (set qtokens \<inter> set (split_ws (tools_normalize k))))
                / rat_of_nat (max (card (set (split_ws (tools_normalize k)))) 1) > best_score
      then faq_scan qtokens rest
             (rat_of_nat (card (set qtokens \<inter> set (split_ws (tools_normalize k))))
                / rat_of_nat (max (card (set (split_ws (tools_normalize k)))) 1)) (Some v)
      else faq_scan qtokens rest best_score best_answer)"

definition google_search :: "string \<Rightarrow> string" where
  "google_search query =
     (if tools_normalize query = [] then ''No query provided.''
      else
        (case faq_scan (split_ws (tools_normalize query)) faqs 0 None of
           Inl v \<Rightarrow> v
         | Inr (best_score, best_answer) \<Rightarrow>
             (case (if 1 / 2 \<le> best_score then best_answer else None) of
                Some (c # cs) \<Rightarrow> c # cs
              | _ \<Rightarrow>
                (case find (\<lambda>(k, v). py_in (tools_normalize k) (tools_normalize query)) faqs of
                   Some (k, v) \<Rightarrow> v
                 | None \<Rightarrow> ''No direct FAQ hit. Try specifics or provide username.''))))"


section \<open>root_agent.py: the language model wrapper\<close>

text \<open>
  \<open>GeminiLLM\<close>. The remote client is outside the program: for a prompt, the body of
  the \<open>try\<close> in \<open>generate\<close> raises (\<open>Inl\<close>), returns a text (\<open>Inr (Some text)\<close>), or finds
  no interface it knows on the client (\<open>Inr None\<close>).
\<close>

record gemini_llm =
  available :: bool
  client :: "(string \<Rightarrow> exn + string option) option"

definition mock_response :: "string \<Rightarrow> string" where
  "mock_response prompt =
     (if py_in ''orientation'' (lower prompt)
      then ''Follow the LMS orientation module and complete the orientation steps.''
      else if py_in ''lockdown'' (lower prompt)
      then ''Install LockDown Browser and follow your course's exam instructions.''
      else if py_in ''ms365'' (lower prompt) \<or> py_in ''office'' (lower prompt)
      then ''Sign in at portal.office.com using your college email.''
      else ''(Mock) I don't have Gemini access here. You asked: '' @ prompt)"

definition generate :: "gemini_llm \<Rightarrow> string \<Rightarrow> string" where
  "generate llm prompt =
     (case (if available llm then client llm else None) of
        None \<Rightarrow> mock_response prompt
      | Some api \<Rightarrow>
          (case api prompt of
             Inl e \<Rightarrow> mock_response prompt
           | Inr None \<Rightarrow> mock_response prompt
           | Inr (Some reply) \<Rightarrow> reply))"

text \<open>The wrapper when the SDK cannot be loaded.\<close>

definition offline_llm :: gemini_llm where
  "offline_llm = \<lparr>available = False, client = None\<rparr>"


section \<open>agents.py: the specialized agents\<close>

text \<open>
  Each agent holds the language model, the tools (here the student table) and the session
  store. \<open>self.memory.get_session(sid)["username"]\<close> subscripts the result of
  \<open>get_session\<close>, which is \<open>None\<close> for an unknown id: a \<open>TypeError\<close>.
  \<open>rec.get("orientation_done", "no")\<close> is \<open>"no"\<close> when the row has no such column and
  the column's value otherwise; when that value is \<open>None\<close>, \<open>.lower()\<close> raises an
  \<open>AttributeError\<close>. In \<open>ProgressAgent\<close>, \<open>if code:\<close> is false for a missing column,
  for \<open>None\<close> and for the empty string.
\<close>

definition OrientationAgent_handle ::
  "gemini_llm \<Rightarrow> student_db \<Rightarrow> 'v memory_store \<Rightarrow> string \<Rightarrow> string \<Rightarrow> exn + string" where
  "OrientationAgent_handle llm db mem sid message =
     (case get_session mem sid of
        None \<Rightarrow> Inl none_not_subscriptable
      | Some s \<Rightarrow>
          (case (case csv_lookup db (username s) ''orientation_done'' of
                   None \<Rightarrow> Some ''no''
                 | Some d \<Rightarrow> d) of
             None \<Rightarrow> Inl none_has_no_lower
           | Some d \<Rightarrow>
               (if lower d = ''yes''
                then Inr ''You have completed the orientation. Check the Orientation module for your certificate.''
                else Inr (generate llm
                       (''orientation steps for user '' @ username s @ '': '' @ message)))))"

definition TechSupportAgent_handle ::
  "gemini_llm \<Rightarrow> student_db \<Rightarrow> 'v memory_store \<Rightarrow> string \<Rightarrow> string \<Rightarrow> exn + string" where
  "TechSupportAgent_handle llm db mem sid message =
     (if py_in ''lockdown'' (lower message) \<or> py_in ''respondus'' (lower message)
      then Inr (generate llm ''lockdown browser steps'')
      else if py_in ''ms365'' (lower message) \<or> py_in ''office'' (lower message)
      then Inr (google_search ''ms365'')
      else if py_in ''can't login'' (lower message) \<or> py_in ''forgot password'' (lower message)
      then Inr ''Try resetting your password via the college portal password reset flow. If that fails, contact helpdesk@example.com.''
      else Inr (generate llm message))"

definition ProgressAgent_handle ::
  "gemini_llm \<Rightarrow> student_db \<Rightarrow> 'v memory_store \<Rightarrow> string \<Rightarrow> string \<Rightarrow> exn + string" where
  "ProgressAgent_handle llm db mem sid message =
     (if py_in ''access code'' (lower message)
      then (case get_session mem sid of
              None \<Rightarrow> Inl none_not_subscriptable
            | Some s \<Rightarrow>
                (case csv_lookup db (username s) ''access_codes'' of
                   Some (Some (c # cs)) \<Rightarrow> Inr (''Your access code: '' @ c # cs)
                 | _ \<Rightarrow> Inr ''No access code on file. Please verify username.''))
      else if list_ex (\<lambda>tok. py_in tok (lower message))
                [''activated'', ''activate'', ''course status'', ''activated?'']
      then Inr ''I can check your course activation status if you give me the course name.''
      else Inr (generate llm message))"

definition FAQAgent_handle ::
  "gemini_llm \<Rightarrow> student_db \<Rightarrow> 'v memory_store \<Rightarrow> string \<Rightarrow> string \<Rightarrow> exn + string" where
  "FAQAgent_handle llm db mem sid message = Inr (google_search message)"


section \<open>main.py: the local knowledge base and the fallback heuristic\<close>

text \<open>
  An entry \<open>{"q": ..., "a": ...}\<close> and the table \<open>LOCAL_KB\<close>, in the order of the source.
  The questions are ASCII; a character of an answer outside ASCII stands as the bytes of
  its UTF-8 encoding.
\<close>

record kb_entry =
  q :: string
  a :: string















text \<open>\<open>_looks_generic_assistant\<close>, the test of \<open>ask\<close> for a reply that is too generic.\<close>

definition generic_phrases :: "string list" where
  "generic_phrases =
     [''i can'', ''here are'', ''sure'', ''happy to'', ''i'm here to'', ''i can help'',
      ''please provide'', ''you can'']"

definition looks_generic_assistant :: "string \<Rightarrow> bool" where
  "looks_generic_assistant reply =
     (if reply = [] then True
      else if list_ex (\<lambda>p. py_in p (lower reply)) generic_phrases then True
      else if length (split_ws reply) \<le> 20 \<and> length reply > 0 then True
      else False)"


section \<open>longrunning.py: the job manager\<close>

text \<open>
  A job is the dictionary \<open>{"status": ..., "thread": ...}\<close>; the thread handle plays no
  part in the status and is left out. The manager's state is its table \<open>jobs\<close>.
\<close>

record job =
  status :: string

type_synonym job_table = "string \<rightharpoonup> job"

definition start_job :: "job_table \<Rightarrow> string \<Rightarrow> string \<times> job_table" where
  "start_job jobs job_id = (job_id, jobs(job_id \<mapsto> \<lparr>status = ''running''\<rparr>))"

text \<open>
  The write of the job's thread when the target has returned (\<open>ok\<close>) or raised, for a job
  whose dictionary is still the one in the table.
\<close>

definition wrapper :: "bool \<Rightarrow> job_table \<Rightarrow> string \<Rightarrow> job_table" where
  "wrapper ok jobs job_id =
     (case jobs job_id of
        None \<Rightarrow> jobs
      | Some j \<Rightarrow> jobs(job_id \<mapsto> j\<lparr>status := (if ok then ''done'' else ''failed'')\<rparr>))"

definition pause_job :: "job_table \<Rightarrow> string \<Rightarrow> bool \<times> job_table" where
  "pause_job jobs job_id =
     (case jobs job_id of
        Some j \<Rightarrow> (True, jobs(job_id \<mapsto> j\<lparr>status := ''paused''\<rparr>))
      | None \<Rightarrow> (False, jobs))"

definition resume_job :: "job_table \<Rightarrow> string \<Rightarrow> bool \<times> job_table" where
  "resume_job jobs job_id =
     (case jobs job_id of
        Some j \<Rightarrow>
          (if status j = ''paused'' then (True, jobs(job_id \<mapsto> j\<lparr>status := ''running''\<rparr>))
           else (False, jobs))
      | None \<Rightarrow> (False, jobs))"

definition get_status :: "job_table \<Rightarrow> string \<Rightarrow> string" where
  "get_status jobs job_id =
     (case jobs job_id of
        None \<Rightarrow> ''not_found''
      | Some j \<Rightarrow> status j)"


section \<open>Properties of the session store\<close>

lemma last10_last10_append: "last10 (last10 xs @ ys) = last10 (xs @ ys)"
  by (cases "length xs \<le> 10") (simp_all add: last10_def add.commute)

lemma last10_short: "length xs \<le> 10 \<Longrightarrow> last10 xs = xs"
  by (simp add: last10_def)

lemma length_last10: "length (last10 xs) = min (length xs) 10"
  by (simp add: last10_def)

lemma append_history_known:
  "sessions st sid = Some s \<Longrightarrow>
   \<exists>st'. append_history st sid r t stamp = Inr st' \<and>
         sessions st' sid = Some (s\<lparr>history := last10 (history s @ [mk_entry (r, t, stamp)])\<rparr>)"
  by (simp add: append_history_def mk_entry_def)

text \<open>
  Appending to a session whose history has at most ten entries: what is stored afterwards
  is the last ten of the old entries followed by the new ones.
\<close>

lemma append_all_history:
  "sessions st sid = Some s \<Longrightarrow> length (history s) \<le> 10 \<Longrightarrow>
   \<exists>st'. append_all st sid es = Inr st' \<and>
         history_of st' sid = last10 (history s @ map mk_entry es)"
proof (induction es arbitrary: st s)
  case Nil
  then show ?case by (simp add: history_of_def last10_short)
next
  case (Cons e es)
  obtain r t stamp where e: "e = (r, t, stamp)" by (cases e) auto
  let ?s1 = "s\<lparr>history := last10 (history s @ [mk_entry e])\<rparr>"
  from append_history_known [OF Cons.prems(1), of r t stamp]
  obtain st1 where st1: "append_history st sid r t stamp = Inr st1"
    and s1: "sessions st1 sid = Some ?s1"
    unfolding e by blast
  have len: "length (history ?s1) \<le> 10" by (simp add: length_last10)
  from Cons.IH [OF s1 len] obtain st' where
    a: "append_all st1 sid es = Inr st'" and
    h: "history_of st' sid = last10 (history ?s1 @ map mk_entry es)"
    by blast
  have "last10 (history ?s1 @ map mk_entry es) = last10 (history s @ map mk_entry (e # es))"
    by (simp add: last10_last10_append)
  with a h st1 e show ?case by simp
qed

text \<open>
  C4. A session starts with an empty history (\<open>create_session\<close>). After \<open>N\<close> successive
  \<open>append_history\<close> calls on it, none of which raises, the stored history has
  \<open>min N 10\<close> entries: the most recent ones of those appended, in the order of the calls.
\<close>

theorem append_history_keeps_last_ten:
  assumes "sessions st sid = Some s" and "history s = []"
  shows "\<exists>st'. append_all st sid es = Inr st' \<and>
               length (history_of st' sid) = min (length es) 10 \<and>
               history_of st' sid = drop (length es - 10) (map mk_entry es)"
proof -
  from assms have "length (history s) \<le> 10" by simp
  from append_all_history [OF assms(1) this, of es] assms(2)
  obtain st' where a: "append_all st sid es = Inr st'"
    and h: "history_of st' sid = last10 (map mk_entry es)" by auto
  from h have "length (history_of st' sid) = min (length es) 10"
    by (simp add: length_last10)
  moreover from h have "history_of st' sid = drop (length es - 10) (map mk_entry es)"
    by (simp add: last10_def)
  ultimately show ?thesis using a by blast
qed

theorem append_history_keeps_last_ten_witness:
  "\<exists>st'. append_all (snd (create_session (init_store :: unit memory_store) ''alice'' 100 ''t0''))
           ''sess_alice_100''
           [(''user'', ''m1'', ''t1''), (''assistant'', ''m2'', ''t2''), (''user'', ''m3'', ''t3''),
            (''assistant'', ''m4'', ''t4''), (''user'', ''m5'', ''t5''), (''assistant'', ''m6'', ''t6''),
            (''user'', ''m7'', ''t7''), (''assistant'', ''m8'', ''t8''), (''user'', ''m9'', ''t9''),
            (''assistant'', ''m10'', ''t10''), (''user'', ''m11'', ''t11''),
            (''assistant'', ''m12'', ''t12'')] = Inr st' \<and>
         length (history_of st' ''sess_alice_100'') = 10 \<and>
         history_of st' ''sess_alice_100'' =
           map mk_entry
             [(''user'', ''m3'', ''t3''),
              (''assistant'', ''m4'', ''t4''), (''user'', ''m5'', ''t5''), (''assistant'', ''m6'', ''t6''),
              (''user'', ''m7'', ''t7''), (''assistant'', ''m8'', ''t8''), (''user'', ''m9'', ''t9''),
              (''assistant'', ''m10'', ''t10''), (''user'', ''m11'', ''t11''),
              (''assistant'', ''m12'', ''t12'')]"
  (is "\<exists>st'. append_all ?st ?sid ?es = Inr st' \<and> ?L st' \<and> ?H st'")
proof -
  have sid: "session_id ''alice'' 100 = ?sid" by code_simp
  have s: "sessions ?st ?sid
     = Some \<lparr>username = ''alice'', history = [], state = Map.empty, created = ''t0''\<rparr>"
    by (simp add: create_session_def sid init_store_def Let_def)
  from append_history_keeps_last_ten [OF s, of ?es]
  obtain st' where a: "append_all ?st ?sid ?es = Inr st'"
    and l: "length (history_of st' ?sid) = min (length ?es) 10"
    and h: "history_of st' ?sid = drop (length ?es - 10) (map mk_entry ?es)"
    by auto
  from l have "?L st'" by simp
  moreover from h have "?H st'" by simp
  ultimately show ?thesis using a by blast
qed

text \<open>
  C5. For a session id the store does not know, \<open>get_session\<close> returns \<open>None\<close>, while
  \<open>append_history\<close> and \<open>set_session_field\<close> raise \<open>KeyError("unknown session")\<close>.
\<close>

theorem unknown_session_outcomes:
  assumes "sessions st sid = None"
  shows "get_session st sid = None \<and>
         append_history st sid r t stamp = Inl unknown_session \<and>
         set_session_field st sid k v = Inl unknown_session"
  using assms by (simp add: get_session_def append_history_def set_session_field_def)

theorem unknown_session_outcomes_witness:
  "sessions (init_store :: unit memory_store) ''sess_bob_7'' = None \<and>
   get_session (init_store :: unit memory_store) ''sess_bob_7'' = None \<and>
   append_history (init_store :: unit memory_store) ''sess_bob_7'' ''user'' ''hello'' ''t1''
     = Inl unknown_session \<and>
   set_session_field (init_store :: unit memory_store) ''sess_bob_7'' ''topic'' ()
     = Inl unknown_session"
proof -
  have n: "sessions (init_store :: unit memory_store) ''sess_bob_7'' = None"
    by (simp add: init_store_def)
  from unknown_session_outcomes [OF n, of "''user''" "''hello''" "''t1''" "''topic''" "()"] n
  show ?thesis by simp
qed

text \<open>
  The unrestricted statement fails: on the store of a fresh process, \<open>append_history\<close> and
  \<open>set_session_field\<close> with an unknown id raise.
\<close>

theorem unknown_session_raises:
  "append_history (init_store :: unit memory_store) ''sess_bob_7'' ''user'' ''hello'' ''t1''
     = Inl (Exn ''KeyError'' ([CHR 0x27] @ ''unknown session'' @ [CHR 0x27])) \<and>
   set_session_field (init_store :: unit memory_store) ''sess_bob_7'' ''topic'' ()
     = Inl (Exn ''KeyError'' ([CHR 0x27] @ ''unknown session'' @ [CHR 0x27]))"
  by (simp add: append_history_def set_session_field_def init_store_def unknown_session_def)


section \<open>Session ids\<close>

lemma digit_char_inj: "d < 10 \<Longrightarrow> e < 10 \<Longrightarrow> digit_char d = digit_char e \<Longrightarrow> d = e"
  unfolding digit_char_def
  by (subst (asm) nth_eq_iff_index_eq) simp_all

lemma digit_char_in: "d < 10 \<Longrightarrow> digit_char d \<in> set ''0123456789''"
  unfolding digit_char_def by (rule nth_mem) simp

lemma str_nat_digits: "set (str_nat n) \<subseteq> set ''0123456789''"
proof (induction n rule: str_nat.induct)
  case (1 n)
  show ?case
  proof (cases "n < 10")
    case True
    then show ?thesis using digit_char_in [of n] by (subst str_nat.simps) simp
  next
    case False
    have "n mod 10 < 10" by simp
    from digit_char_in [OF this] 1 [OF False] False
    show ?thesis by (subst str_nat.simps) simp
  qed
qed

lemma str_nat_nonempty: "str_nat n \<noteq> []"
  by (subst str_nat.simps) simp

lemma str_nat_inj: "str_nat m = str_nat n \<Longrightarrow> m = n"
proof (induction m arbitrary: n rule: str_nat.induct)
  case (1 m)
  show ?case
  proof (cases "m < 10")
    case m: True
    have sm: "str_nat m = [digit_char m]" using m by (subst str_nat.simps) simp
    show ?thesis
    proof (cases "n < 10")
      case True
      then have "str_nat n = [digit_char n]" by (subst str_nat.simps) simp
      with sm 1(2) m True show ?thesis by (simp add: digit_char_inj)
    next
      case False
      then have "str_nat n = str_nat (n div 10) @ [digit_char (n mod 10)]"
        by (subst str_nat.simps) simp
      with sm show ?thesis using 1(2) str_nat_nonempty [of "n div 10"] by simp
    qed
  next
    case m: False
    have em: "str_nat m = str_nat (m div 10) @ [digit_char (m mod 10)]"
      using m by (subst str_nat.simps) simp
    show ?thesis
    proof (cases "n < 10")
      case True
      have "str_nat n = [digit_char n]" using True by (subst str_nat.simps) simp
      with em 1(2) str_nat_nonempty [of "m div 10"] show ?thesis by simp
    next
      case False
      have en: "str_nat n = str_nat (n div 10) @ [digit_char (n mod 10)]"
        using False by (subst str_nat.simps) simp
      from em en 1(2) have a: "str_nat (m div 10) = str_nat (n div 10)"
        and b: "digit_char (m mod 10) = digit_char (n mod 10)" by simp_all
      from 1(1) [OF m a] have "m div 10 = n div 10" .
      moreover from b have "m mod 10 = n mod 10" by (intro digit_char_inj) simp_all
      ultimately show ?thesis by (metis div_mult_mod_eq)
    qed
  qed
qed

lemma str_nat_no_minus: "CHR ''-'' \<notin> set (str_nat n)"
  using str_nat_digits [of n] by auto

lemma str_int_inj: "str_int i = str_int j \<Longrightarrow> i = j"
proof -
  assume eq: "str_int i = str_int j"
  have hd_nat: "hd (str_nat n) \<noteq> CHR ''-''" for n
    using str_nat_no_minus [of n] str_nat_nonempty [of n] by (cases "str_nat n") auto
  show ?thesis
  proof (cases "i < 0")
    case i: True
    show ?thesis
    proof (cases "j < 0")
      case True
      with i eq have "str_nat (nat (- i)) = str_nat (nat (- j))" by (simp add: str_int_def)
      from str_nat_inj [OF this] i True show ?thesis by simp
    next
      case False
      with i eq have "CHR ''-'' # str_nat (nat (- i)) = str_nat (nat j)" by (simp add: str_int_def)
      then have "hd (str_nat (nat j)) = CHR ''-''" by (metis list.sel(1))
      with hd_nat show ?thesis by blast
    qed
  next
    case i: False
    show ?thesis
    proof (cases "j < 0")
      case True
      with i eq have "str_nat (nat i) = CHR ''-'' # str_nat (nat (- j))" by (simp add: str_int_def)
      then have "hd (str_nat (nat i)) = CHR ''-''" by (metis list.sel(1))
      with hd_nat show ?thesis by blast
    next
      case False
      with i eq have "str_nat (nat i) = str_nat (nat j)" by (simp add: str_int_def)
      from str_nat_inj [OF this] i False show ?thesis by simp
    qed
  qed
qed

lemma str_int_no_underscore: "CHR ''_'' \<notin> set (str_int i)"
  using str_nat_digits [of "nat i"] str_nat_digits [of "nat (- i)"]
  by (auto simp: str_int_def)

lemma split_at_last:
  "c \<notin> set x \<Longrightarrow> c \<notin> set y \<Longrightarrow> u @ c # x = v @ c # y \<Longrightarrow> u = v \<and> x = y"
proof (induction u arbitrary: v)
  case Nil
  then show ?case by (cases v) auto
next
  case (Cons a u)
  then show ?case by (cases v) auto
qed

lemma session_id_inj:
  "session_id u1 t1 = session_id u2 t2 \<longleftrightarrow> u1 = u2 \<and> py_int t1 = py_int t2"
proof
  assume "session_id u1 t1 = session_id u2 t2"
  then have "u1 @ CHR ''_'' # str_int (py_int t1) = u2 @ CHR ''_'' # str_int (py_int t2)"
    by (simp add: session_id_def)
  from split_at_last [OF str_int_no_underscore str_int_no_underscore this]
  show "u1 = u2 \<and> py_int t1 = py_int t2" by (auto dest: str_int_inj)
next
  assume "u1 = u2 \<and> py_int t1 = py_int t2"
  then show "session_id u1 t1 = session_id u2 t2" by (simp add: session_id_def)
qed

text \<open>
  C9. Two \<open>create_session\<close> calls return the same id exactly when they are given the same
  username and their clock readings fall in the same whole second. The call stores a
  fresh record under its id, replacing whatever was there, and leaves every other id's
  record as it was.
\<close>

theorem create_session_ids:
  "(fst (create_session st1 u1 t1 c1) = fst (create_session st2 u2 t2 c2)
      \<longleftrightarrow> u1 = u2 \<and> py_int t1 = py_int t2) \<and>
   sessions (snd (create_session st1 u1 t1 c1)) (fst (create_session st1 u1 t1 c1))
     = Some \<lparr>username = u1, history = [], state = Map.empty, created = c1\<rparr> \<and>
   (\<forall>sid. sid \<noteq> fst (create_session st1 u1 t1 c1) \<longrightarrow>
      sessions (snd (create_session st1 u1 t1 c1)) sid = sessions st1 sid)"
  by (simp add: create_session_def Let_def session_id_inj)

theorem create_session_ids_witness:
  "fst (create_session (init_store :: unit memory_store) ''alice'' 100 ''t0'') = ''sess_alice_100'' \<and>
   fst (create_session (init_store :: unit memory_store) ''bob'' 100 ''t0'') = ''sess_bob_100'' \<and>
   sessions (snd (create_session (snd (create_session (init_store :: unit memory_store) ''alice'' 100 ''t0''))
      ''bob'' 100 ''t1'')) ''sess_alice_100''
     = Some \<lparr>username = ''alice'', history = [], state = Map.empty, created = ''t0''\<rparr>"
proof -
  have a: "session_id ''alice'' 100 = ''sess_alice_100''" by code_simp
  have b: "session_id ''bob'' 100 = ''sess_bob_100''" by code_simp
  show ?thesis
  using create_session_ids [of "snd (create_session (init_store :: unit memory_store) ''alice'' 100 ''t0'')"
     "''bob''" 100 "''t1''" init_store "''alice''" 100 "''t0''"]
    create_session_ids [of "init_store :: unit memory_store" "''alice''" 100 "''t0''" init_store "''alice''" 100 "''t0''"]
  by (simp add: a b create_session_def Let_def)
qed

text \<open>
  The unrestricted statement fails: two calls for the same username whose clock readings, 100 and
  100.5, fall in the same second return the same id, and the second call replaces the
  record that the first one stored.
\<close>

theorem create_session_id_collision:
  "fst (create_session (snd (create_session (init_store :: unit memory_store) ''alice'' 100 ''t0''))
          ''alice'' (201 / 2) ''t1'')
     = fst (create_session (init_store :: unit memory_store) ''alice'' 100 ''t0'') \<and>
   sessions (snd (create_session (init_store :: unit memory_store) ''alice'' 100 ''t0'')) ''sess_alice_100''
     = Some \<lparr>username = ''alice'', history = [], state = Map.empty, created = ''t0''\<rparr> \<and>
   sessions (snd (create_session (snd (create_session (init_store :: unit memory_store) ''alice'' 100 ''t0''))
          ''alice'' (201 / 2) ''t1'')) ''sess_alice_100''
     = Some \<lparr>username = ''alice'', history = [], state = Map.empty, created = ''t1''\<rparr>"
proof -
  have a: "session_id ''alice'' 100 = ''sess_alice_100''" by code_simp
  have b: "session_id ''alice'' (201 / 2) = ''sess_alice_100''" by code_simp
  show ?thesis by (simp add: a b create_session_def Let_def)
qed


section \<open>Properties of the composite agents\<close>

text \<open>
  C10. A \<open>SequentialAgent\<close> with no member agents returns the message it is given.
\<close>

theorem SequentialAgent_empty: "SequentialAgent_handle [] sid message = Inr message"
  by simp

lemma run_threads_map:
  "run_threads agents order sid message acc
     = acc @ map (\<lambda>i. run_agent (agents ! i) sid message) order"
  by (induction order arbitrary: acc) simp_all

lemma completion_order_mset:
  assumes "completion_order agents order"
  shows "mset (map (\<lambda>i. f (agents ! i)) order) = mset (map f agents)"
proof -
  have "mset (map (\<lambda>i. f (agents ! i)) order) = image_mset (\<lambda>i. f (agents ! i)) (mset order)"
    by simp
  also have "\<dots> = image_mset (\<lambda>i. f (agents ! i)) (mset [0..<length agents])"
    using assms by (simp add: completion_order_def)
  also have "\<dots> = mset (map (\<lambda>i. f (agents ! i)) [0..<length agents])"
    by simp
  also have "map (\<lambda>i. f (agents ! i)) [0..<length agents] = map f (map (\<lambda>i. agents ! i) [0..<length agents])"
    by simp
  also have "map (\<lambda>i. agents ! i) [0..<length agents] = agents"
    by (rule map_nth)
  finally show ?thesis .
qed

lemma tech_forgot: "TechSupportAgent_handle offline_llm default_student_db (init_store :: unit memory_store) ''s1'' ''I forgot password''
  = Inr ''Try resetting your password via the college portal password reset flow. If that fails, contact helpdesk@example.com.''"
  by code_simp

lemma faq_forgot: "FAQAgent_handle offline_llm default_student_db (init_store :: unit memory_store) ''s1'' ''I forgot password''
  = Inr ''No direct FAQ hit. Try specifics or provide username.''"
  by code_simp

text \<open>
  C1. \<open>ParallelAgent.handle\<close> returns the members' texts joined by the separator in the
  order in which the member threads append them, which is the order in which they finish.
  Every member's text is there once. When the threads finish in the order of the agent
  list, the output is in the order of the agent list.
\<close>

theorem ParallelAgent_completion_order:
  assumes "completion_order agents order"
  shows "ParallelAgent_handle agents order sid message =
           Inr (join separator (map (\<lambda>i. run_agent (agents ! i) sid message) order)) \<and>
         mset (map (\<lambda>i. run_agent (agents ! i) sid message) order)
           = mset (map (\<lambda>ag. run_agent ag sid message) agents) \<and>
         ParallelAgent_handle agents [0..<length agents] sid message =
           Inr (join separator (map (\<lambda>ag. run_agent ag sid message) agents))"
proof -
  have "map (\<lambda>i. run_agent (agents ! i) sid message) [0..<length agents]
          = map (\<lambda>ag. run_agent ag sid message) (map (\<lambda>i. agents ! i) [0..<length agents])"
    by simp
  also have "\<dots> = map (\<lambda>ag. run_agent ag sid message) agents"
    by (simp only: map_nth)
  finally have "ParallelAgent_handle agents [0..<length agents] sid message =
           Inr (join separator (map (\<lambda>ag. run_agent ag sid message) agents))"
    by (simp add: ParallelAgent_handle_def run_threads_map)
  moreover have "mset (map (\<lambda>i. run_agent (agents ! i) sid message) order)
                  = mset (map (\<lambda>ag. run_agent ag sid message) agents)"
    by (rule completion_order_mset [OF assms])
  ultimately show ?thesis
    by (simp add: ParallelAgent_handle_def run_threads_map)
qed

theorem ParallelAgent_completion_order_witness:
  "completion_order
     [TechSupportAgent_handle offline_llm default_student_db (init_store :: unit memory_store),
      FAQAgent_handle offline_llm default_student_db (init_store :: unit memory_store)] [0, 1] \<and>
   ParallelAgent_handle
     [TechSupportAgent_handle offline_llm default_student_db (init_store :: unit memory_store),
      FAQAgent_handle offline_llm default_student_db (init_store :: unit memory_store)] [0, 1]
     ''s1'' ''I forgot password''
   = Inr (''Try resetting your password via the college portal password reset flow. If that fails, contact helpdesk@example.com.'' @ separator @
          ''No direct FAQ hit. Try specifics or provide username.'')"
proof -
  have c: "completion_order
     [TechSupportAgent_handle offline_llm default_student_db (init_store :: unit memory_store),
      FAQAgent_handle offline_llm default_student_db (init_store :: unit memory_store)] [0, 1]"
    by (simp add: completion_order_def)
  from ParallelAgent_completion_order [OF c, of "''s1''" "''I forgot password''"] c
  show ?thesis by (simp add: run_agent_def tech_forgot faq_forgot)
qed

text \<open>
  The unrestricted statement fails. The root agent's parallel composite is
  \<open>ParallelAgent([tech, faq])\<close>; when the FAQ thread appends before the tech-support
  thread, the FAQ agent's text comes first in the output.
\<close>

theorem ParallelAgent_order_counterexample:
  "completion_order
     [TechSupportAgent_handle offline_llm default_student_db (init_store :: unit memory_store),
      FAQAgent_handle offline_llm default_student_db (init_store :: unit memory_store)] [1, 0] \<and>
   ParallelAgent_handle
     [TechSupportAgent_handle offline_llm default_student_db (init_store :: unit memory_store),
      FAQAgent_handle offline_llm default_student_db (init_store :: unit memory_store)] [1, 0]
     ''s1'' ''I forgot password''
   = Inr (''No direct FAQ hit. Try specifics or provide username.'' @ separator @
          ''Try resetting your password via the college portal password reset flow. If that fails, contact helpdesk@example.com.'') \<and>
   ParallelAgent_handle
     [TechSupportAgent_handle offline_llm default_student_db (init_store :: unit memory_store),
      FAQAgent_handle offline_llm default_student_db (init_store :: unit memory_store)] [1, 0]
     ''s1'' ''I forgot password''
   \<noteq> Inr (''Try resetting your password via the college portal password reset flow. If that fails, contact helpdesk@example.com.'' @ separator @
          ''No direct FAQ hit. Try specifics or provide username.'')"
  by (simp add: completion_order_def ParallelAgent_handle_def run_agent_def tech_forgot faq_forgot)


text \<open>
  C3. \<open>ParallelAgent.handle\<close> does not raise, whatever its members do. In the output, the
  part of a member that raised is \<open>Agent error: \<close> followed by the text of the exception,
  and the part of any other member is the text it returned; every member has one part.
\<close>

theorem ParallelAgent_isolates_failures:
  assumes "completion_order agents order"
  shows "ParallelAgent_handle agents order sid message =
           Inr (join separator
                  (map (\<lambda>i. case (agents ! i) sid message of
                               Inl e \<Rightarrow> ''Agent error: '' @ exn_str e
                             | Inr r \<Rightarrow> r) order)) \<and>
         mset (map (\<lambda>i. case (agents ! i) sid message of
                               Inl e \<Rightarrow> ''Agent error: '' @ exn_str e
                             | Inr r \<Rightarrow> r) order)
           = mset (map (\<lambda>ag. case ag sid message of
                               Inl e \<Rightarrow> ''Agent error: '' @ exn_str e
                             | Inr r \<Rightarrow> r) agents)"
proof -
  have slot: "run_agent ag sid message =
          (case ag sid message of Inl e \<Rightarrow> ''Agent error: '' @ exn_str e | Inr r \<Rightarrow> r)" for ag
    by (simp add: run_agent_def split: sum.splits)
  have "ParallelAgent_handle agents order sid message =
          Inr (join separator (map (\<lambda>i. run_agent (agents ! i) sid message) order))"
    by (simp add: ParallelAgent_handle_def run_threads_map)
  moreover have "mset (map (\<lambda>i. run_agent (agents ! i) sid message) order)
                  = mset (map (\<lambda>ag. run_agent ag sid message) agents)"
    by (rule completion_order_mset [OF assms])
  ultimately show ?thesis by (simp add: slot)
qed


theorem ParallelAgent_isolates_failures_witness:
  "completion_order
     [OrientationAgent_handle offline_llm default_student_db (init_store :: unit memory_store),
      FAQAgent_handle offline_llm default_student_db (init_store :: unit memory_store)] [1, 0] \<and>
   ParallelAgent_handle
     [OrientationAgent_handle offline_llm default_student_db (init_store :: unit memory_store),
      FAQAgent_handle offline_llm default_student_db (init_store :: unit memory_store)] [1, 0]
     ''s1'' ''I forgot password''
   = Inr (''No direct FAQ hit. Try specifics or provide username.'' @ separator @
          ''Agent error: '' @ [CHR 0x27] @ ''NoneType'' @ [CHR 0x27] @ '' object is not subscriptable'')"
proof -
  have c: "completion_order
     [OrientationAgent_handle offline_llm default_student_db (init_store :: unit memory_store),
      FAQAgent_handle offline_llm default_student_db (init_store :: unit memory_store)] [1, 0]"
    by (simp add: completion_order_def)
  have o: "OrientationAgent_handle offline_llm default_student_db (init_store :: unit memory_store) ''s1'' ''I forgot password''
     = Inl none_not_subscriptable"
    by (simp add: OrientationAgent_handle_def get_session_def init_store_def)
  from ParallelAgent_isolates_failures [OF c, of "''s1''" "''I forgot password''"] c
  show ?thesis by (simp add: faq_forgot o none_not_subscriptable_def)
qed


section \<open>Properties of the specialized agents\<close>

text \<open>
  C2. \<open>TechSupportAgent.handle\<close> and \<open>FAQAgent.handle\<close> return a text for every session
  id and message. \<open>OrientationAgent.handle\<close> raises \<open>TypeError\<close> exactly when the store
  does not know the session id, raises \<open>AttributeError\<close> exactly when it knows the id
  and the student's row has \<open>None\<close> in the column \<open>orientation_done\<close>, and returns a text
  in every other case. \<open>ProgressAgent.handle\<close> raises \<open>TypeError\<close> exactly when the id
  is unknown and the message contains \<open>access code\<close>, and returns a text otherwise.
\<close>

theorem leaf_agents_raise_on_unknown_session:
  "(\<exists>r. TechSupportAgent_handle llm db mem sid message = Inr r) \<and>
   (\<exists>r. FAQAgent_handle llm db mem sid message = Inr r) \<and>
   (OrientationAgent_handle llm db mem sid message = Inl none_not_subscriptable
      \<longleftrightarrow> get_session mem sid = None) \<and>
   (OrientationAgent_handle llm db mem sid message = Inl none_has_no_lower
      \<longleftrightarrow> (\<exists>s. get_session mem sid = Some s \<and>
                csv_lookup db (username s) ''orientation_done'' = Some None)) \<and>
   ((\<exists>r. OrientationAgent_handle llm db mem sid message = Inr r)
      \<longleftrightarrow> (\<exists>s. get_session mem sid = Some s \<and>
                csv_lookup db (username s) ''orientation_done'' \<noteq> Some None)) \<and>
   ((\<exists>r. ProgressAgent_handle llm db mem sid message = Inr r)
      \<longleftrightarrow> \<not> (get_session mem sid = None \<and> py_in ''access code'' (lower message))) \<and>
   (ProgressAgent_handle llm db mem sid message = Inl none_not_subscriptable
      \<longleftrightarrow> get_session mem sid = None \<and> py_in ''access code'' (lower message))"
proof -
  have ne: "none_not_subscriptable \<noteq> none_has_no_lower"
    by (simp add: none_not_subscriptable_def none_has_no_lower_def)
  have o: "OrientationAgent_handle llm db mem sid message = Inl none_not_subscriptable
      \<longleftrightarrow> get_session mem sid = None"
    using ne by (auto simp: OrientationAgent_handle_def split: option.splits)
  have o': "OrientationAgent_handle llm db mem sid message = Inl none_has_no_lower
      \<longleftrightarrow> (\<exists>s. get_session mem sid = Some s \<and>
                csv_lookup db (username s) ''orientation_done'' = Some None)"
    using ne by (auto simp: OrientationAgent_handle_def split: option.splits)
  have o'': "(\<exists>r. OrientationAgent_handle llm db mem sid message = Inr r)
      \<longleftrightarrow> (\<exists>s. get_session mem sid = Some s \<and>
                csv_lookup db (username s) ''orientation_done'' \<noteq> Some None)"
    by (auto simp: OrientationAgent_handle_def split: option.splits)
  have p: "(\<exists>r. ProgressAgent_handle llm db mem sid message = Inr r)
      \<longleftrightarrow> \<not> (get_session mem sid = None \<and> py_in ''access code'' (lower message))"
    by (auto simp: ProgressAgent_handle_def split: option.splits list.splits)
  have p': "ProgressAgent_handle llm db mem sid message = Inl none_not_subscriptable
      \<longleftrightarrow> get_session mem sid = None \<and> py_in ''access code'' (lower message)"
    by (auto simp: ProgressAgent_handle_def split: option.splits list.splits)
  have t: "\<exists>r. TechSupportAgent_handle llm db mem sid message = Inr r"
    by (simp add: TechSupportAgent_handle_def)
  have f: "\<exists>r. FAQAgent_handle llm db mem sid message = Inr r"
    by (simp add: FAQAgent_handle_def)
  from t f o o' o'' p p' show ?thesis by blast
qed

theorem leaf_agents_known_session_witness:
  "(\<exists>r. OrientationAgent_handle offline_llm default_student_db
           (snd (create_session (init_store :: unit memory_store) ''bob'' 100 ''t0''))
           ''sess_bob_100'' ''how do I start'' = Inr r) \<and>
   (\<exists>r. ProgressAgent_handle offline_llm default_student_db
           (snd (create_session (init_store :: unit memory_store) ''bob'' 100 ''t0''))
           ''sess_bob_100'' ''What is my access code?'' = Inr r) \<and>
   OrientationAgent_handle offline_llm short_row_student_db
           (snd (create_session (init_store :: unit memory_store) ''carol'' 100 ''t0''))
           ''sess_carol_100'' ''how do I start'' = Inl none_has_no_lower \<and>
   (\<exists>r. ProgressAgent_handle offline_llm short_row_student_db
           (snd (create_session (init_store :: unit memory_store) ''carol'' 100 ''t0''))
           ''sess_carol_100'' ''What is my access code?'' = Inr r)"
proof -
  let ?bob = "snd (create_session (init_store :: unit memory_store) ''bob'' 100 ''t0'')"
  let ?carol = "snd (create_session (init_store :: unit memory_store) ''carol'' 100 ''t0'')"
  have sid: "session_id ''bob'' 100 = ''sess_bob_100''" by code_simp
  have sid': "session_id ''carol'' 100 = ''sess_carol_100''" by code_simp
  have b: "get_session ?bob ''sess_bob_100''
             = Some \<lparr>username = ''bob'', history = [], state = Map.empty, created = ''t0''\<rparr>"
    by (simp add: get_session_def create_session_def Let_def sid)
  have c: "get_session ?carol ''sess_carol_100''
             = Some \<lparr>username = ''carol'', history = [], state = Map.empty, created = ''t0''\<rparr>"
    by (simp add: get_session_def create_session_def Let_def sid')
  have bd: "csv_lookup default_student_db ''bob'' ''orientation_done'' = Some (Some ''no'')"
    by (simp add: csv_lookup_def default_student_db_def)
  have cd: "csv_lookup short_row_student_db ''carol'' ''orientation_done'' = Some None"
    by (simp add: csv_lookup_def short_row_student_db_def)
  have 1: "\<exists>r. OrientationAgent_handle offline_llm default_student_db ?bob
                 ''sess_bob_100'' ''how do I start'' = Inr r"
    using leaf_agents_raise_on_unknown_session
            [of offline_llm default_student_db ?bob "''sess_bob_100''" "''how do I start''"]
          b bd by simp
  have 2: "\<exists>r. ProgressAgent_handle offline_llm default_student_db ?bob
                 ''sess_bob_100'' ''What is my access code?'' = Inr r"
    using leaf_agents_raise_on_unknown_session
            [of offline_llm default_student_db ?bob "''sess_bob_100''" "''What is my access code?''"]
          b by simp
  have 3: "OrientationAgent_handle offline_llm short_row_student_db ?carol
                 ''sess_carol_100'' ''how do I start'' = Inl none_has_no_lower"
    using leaf_agents_raise_on_unknown_session
            [of offline_llm short_row_student_db ?carol "''sess_carol_100''" "''how do I start''"]
          c cd by simp
  have 4: "\<exists>r. ProgressAgent_handle offline_llm short_row_student_db ?carol
                 ''sess_carol_100'' ''What is my access code?'' = Inr r"
    using leaf_agents_raise_on_unknown_session
            [of offline_llm short_row_student_db ?carol "''sess_carol_100''" "''What is my access code?''"]
          c by simp
  from 1 2 3 4 show ?thesis by blast
qed

text \<open>
  The unrestricted statement fails: for a session id that the store does not know, the
  orientation agent raises, and so does the progress agent on a question about the access
  code.
\<close>

theorem leaf_agent_raises:
  "OrientationAgent_handle offline_llm default_student_db (init_store :: unit memory_store)
      ''sess_carol_1'' ''how do I start''
     = Inl (Exn ''TypeError'' ([CHR 0x27] @ ''NoneType'' @ [CHR 0x27] @ '' object is not subscriptable'')) \<and>
   ProgressAgent_handle offline_llm default_student_db (init_store :: unit memory_store)
      ''sess_carol_1'' ''What is my access code?''
     = Inl (Exn ''TypeError'' ([CHR 0x27] @ ''NoneType'' @ [CHR 0x27] @ '' object is not subscriptable''))"
proof -
  have "py_in ''access code'' (lower ''What is my access code?'')" by code_simp
  then show ?thesis
    by (simp add: OrientationAgent_handle_def ProgressAgent_handle_def get_session_def
        init_store_def none_not_subscriptable_def)
qed



section \<open>Properties of the knowledge-base matcher and the fallback heuristic\<close>

lemma startswith_iff: "startswith s p \<longleftrightarrow> (\<exists>post. s = p @ post)"
  by (induction s p rule: startswith.induct) auto

lemma py_in_iff: "py_in sub s \<longleftrightarrow> (\<exists>pre post. s = pre @ sub @ post)"
proof (induction s)
  case Nil
  then show ?case by simp
next
  case (Cons c cs)
  note IH = Cons.IH
  show ?case
  proof
    assume "py_in sub (c # cs)"
    then consider "startswith (c # cs) sub" | "py_in sub cs" by auto
    then show "\<exists>pre post. c # cs = pre @ sub @ post"
    proof cases
      case 1
      then obtain post where "c # cs = sub @ post" by (auto simp: startswith_iff)
      then have "c # cs = [] @ sub @ post" by simp
      then show ?thesis by blast
    next
      case 2
      with IH obtain pre post where "cs = pre @ sub @ post" by blast
      then have "c # cs = (c # pre) @ sub @ post" by simp
      then show ?thesis by blast
    qed
  next
    assume "\<exists>pre post. c # cs = pre @ sub @ post"
    then obtain pre post where e: "c # cs = pre @ sub @ post" by blast
    show "py_in sub (c # cs)"
    proof (cases pre)
      case Nil
      with e have "startswith (c # cs) sub" by (auto simp: startswith_iff)
      then show ?thesis by simp
    next
      case (Cons x pre')
      with e have "cs = pre' @ sub @ post" by simp
      with IH have "py_in sub cs" by blast
      then show ?thesis by simp
    qed
  qed
qed

























text \<open>
  C7. \<open>_looks_generic_assistant\<close> judges a reply generic exactly when the reply is empty,
  or its lower-cased text contains one of the generic phrases, or it has twenty words or
  fewer. A longer reply that contains none of the phrases is not generic.
\<close>

theorem looks_generic_assistant_iff:
  "looks_generic_assistant reply \<longleftrightarrow>
     reply = [] \<or>
     (\<exists>p \<in> set generic_phrases. \<exists>pre post. lower reply = pre @ p @ post) \<or>
     length (split_ws reply) \<le> 20"
  by (auto simp: looks_generic_assistant_def list_ex_iff py_in_iff)

theorem looks_generic_assistant_examples:
  "looks_generic_assistant [] \<and>
   looks_generic_assistant ''Reset it from the portal.'' \<and>
   looks_generic_assistant
     ''SURE: open the dashboard then open the orientation module then read every lesson then take the short quiz at the very end and then download the certificate'' \<and>
   \<not> looks_generic_assistant
     ''Open the dashboard then open the orientation module then read every lesson then take the short quiz at the very end and then download the certificate''"
proof -
  have w: "length (split_ws ''Reset it from the portal.'') \<le> 20" by code_simp
  have p: "lower ''SURE: open the dashboard then open the orientation module then read every lesson then take the short quiz at the very end and then download the certificate''
     = [] @ ''sure'' @ '': open the dashboard then open the orientation module then read every lesson then take the short quiz at the very end and then download the certificate''"
    by code_simp
  have "''sure'' \<in> set generic_phrases" by (simp add: generic_phrases_def)
  with p have g3: "looks_generic_assistant
     ''SURE: open the dashboard then open the orientation module then read every lesson then take the short quiz at the very end and then download the certificate''"
    unfolding looks_generic_assistant_iff by blast
  have g4: "\<not> looks_generic_assistant
     ''Open the dashboard then open the orientation module then read every lesson then take the short quiz at the very end and then download the certificate''"
    by code_simp
  show ?thesis
    using w g3 g4 looks_generic_assistant_iff [of "[]"]
      looks_generic_assistant_iff [of "''Reset it from the portal.''"]
    by simp
qed


section \<open>Properties of the job manager\<close>

text \<open>
  C8. \<open>get_status\<close> of an id with no registered job is \<open>not_found\<close>, and \<open>pause_job\<close> and
  \<open>resume_job\<close> on such an id return \<open>False\<close> and change nothing. \<open>resume_job\<close> succeeds
  exactly when the job's status is \<open>paused\<close> and then sets it to \<open>running\<close>; otherwise
  it changes nothing, so it never changes a job that is \<open>done\<close> or \<open>failed\<close>.
  \<open>pause_job\<close> succeeds for every registered job, whatever its status, and sets the
  status to \<open>paused\<close>.
\<close>

theorem job_status_transitions:
  "(jobs job_id = None \<longrightarrow>
      get_status jobs job_id = ''not_found'' \<and>
      pause_job jobs job_id = (False, jobs) \<and> resume_job jobs job_id = (False, jobs)) \<and>
   (fst (resume_job jobs job_id) \<longleftrightarrow> (\<exists>j. jobs job_id = Some j \<and> status j = ''paused'')) \<and>
   (fst (resume_job jobs job_id) \<longrightarrow>
      get_status (snd (resume_job jobs job_id)) job_id = ''running'') \<and>
   (\<not> fst (resume_job jobs job_id) \<longrightarrow> snd (resume_job jobs job_id) = jobs) \<and>
   (get_status jobs job_id = ''done'' \<or> get_status jobs job_id = ''failed'' \<longrightarrow>
      resume_job jobs job_id = (False, jobs)) \<and>
   (jobs job_id \<noteq> None \<longrightarrow>
      fst (pause_job jobs job_id) \<and>
      get_status (snd (pause_job jobs job_id)) job_id = ''paused'')"
  by (auto simp: get_status_def pause_job_def resume_job_def split: option.splits)

theorem job_status_transitions_witness:
  "get_status (wrapper True (snd (start_job Map.empty ''job1'')) ''job1'') ''job1'' = ''done'' \<and>
   resume_job (wrapper True (snd (start_job Map.empty ''job1'')) ''job1'') ''job1''
     = (False, wrapper True (snd (start_job Map.empty ''job1'')) ''job1'') \<and>
   get_status (wrapper True (snd (start_job Map.empty ''job1'')) ''job1'') ''job2'' = ''not_found'' \<and>
   fst (resume_job (snd (pause_job (snd (start_job Map.empty ''job1'')) ''job1'')) ''job1'') \<and>
   get_status (snd (resume_job (snd (pause_job (snd (start_job Map.empty ''job1'')) ''job1'')) ''job1''))
     ''job1'' = ''running''"
proof -
  let ?done = "wrapper True (snd (start_job Map.empty ''job1'')) ''job1''"
  let ?paused = "snd (pause_job (snd (start_job Map.empty ''job1'')) ''job1'')"
  have d: "?done ''job1'' = Some \<lparr>status = ''done''\<rparr>" and d2: "?done ''job2'' = None"
    by (simp_all add: wrapper_def start_job_def)
  have p: "?paused ''job1'' = Some \<lparr>status = ''paused''\<rparr>"
    by (simp add: pause_job_def start_job_def)
  have nr: "\<not> fst (resume_job ?done ''job1'')"
    using job_status_transitions [of ?done "''job1''"] d by simp
  have r: "fst (resume_job ?paused ''job1'')"
    using job_status_transitions [of ?paused "''job1''"] p by simp
  have "get_status ?done ''job1'' = ''done''" using d by (simp add: get_status_def)
  moreover have "resume_job ?done ''job1'' = (False, ?done)"
    using job_status_transitions [of ?done "''job1''"] nr by (simp add: prod_eq_iff)
  moreover have "get_status ?done ''job2'' = ''not_found''"
    using job_status_transitions [of ?done "''job2''"] d2 by simp
  moreover have "get_status (snd (resume_job ?paused ''job1'')) ''job1'' = ''running''"
    using job_status_transitions [of ?paused "''job1''"] r by simp
  ultimately show ?thesis using r by simp
qed

text \<open>
  The unrestricted statement fails: \<open>pause_job\<close> on a job that is \<open>done\<close> (or \<open>failed\<close>) sets its
  status to \<open>paused\<close>, and \<open>resume_job\<close> then sets it to \<open>running\<close>.
\<close>

theorem pause_job_overrides_done:
  "get_status (wrapper True (snd (start_job Map.empty ''job1'')) ''job1'') ''job1'' = ''done'' \<and>
   get_status (snd (pause_job (wrapper True (snd (start_job Map.empty ''job1'')) ''job1'') ''job1''))
     ''job1'' = ''paused'' \<and>
   get_status (snd (resume_job
       (snd (pause_job (wrapper True (snd (start_job Map.empty ''job1'')) ''job1'') ''job1''))
       ''job1'')) ''job1'' = ''running'' \<and>
   get_status (snd (pause_job (wrapper False (snd (start_job Map.empty ''job1'')) ''job1'') ''job1''))
     ''job1'' = ''paused''"
  by (simp add: get_status_def pause_job_def resume_job_def wrapper_def start_job_def)

end
